theory Spec2Isabelle
  imports Complex_Main "HOL-Library.Log_Nat"
begin

section \<open>Data model of SpaceShooterGame.tsx\<close>

text \<open>
  JavaScript numbers are modelled as follows: coordinates, sizes, velocities and the
  countdown are \<open>real\<close> (the arithmetic of the program without rounding; the collision
  test is also given with the rounding of the source, as \<open>checkCollision_double\<close>), the
  bullet counter, the boss's hit points and the millisecond readings of \<open>Date.now()\<close>
  are \<open>int\<close>. The \<open>sprite\<close> field of a game object, the PIXI stage and the
  React \<open>gameInfo\<close> mirror are output only: nothing of the game logic reads them,
  and they are left out. \<open>createBackground\<close>, \<open>showMessage\<close> and \<open>setGameInfo\<close>
  therefore have no counterpart here.
\<close>

record GameObject =
  x :: real
  y :: real
  width :: real
  height :: real
  vy :: "real option"

record Boss = GameObject +
  hp :: int
  maxHp :: int
  lastShot :: int
  movingRight :: bool
  moveStartTime :: int

datatype GameState = Menu | Level1 | Level2 | Win | Lose

text \<open>\<open>app.screen\<close>: the only part of the PIXI application the logic reads.\<close>

record app =
  screen_width :: real
  screen_height :: real

text \<open>The object held by \<open>gameStateRef\<close>. A key that was never pressed is absent from
  \<open>keys\<close> (\<open>undefined\<close>, which is falsy).\<close>

record game =
  player :: "GameObject option"
  bullets :: "GameObject list"
  asteroids :: "GameObject list"
  boss :: "Boss option"
  bossBullets :: "GameObject list"
  keys :: "string \<rightharpoonup> bool"
  bulletsRemaining :: int
  timeRemaining :: real
  gameState :: GameState
  lastTime :: int

definition initialGame :: game where
  "initialGame = \<lparr>player = None, bullets = [], asteroids = [], boss = None,
     bossBullets = [], keys = Map.empty, bulletsRemaining = 10, timeRemaining = 60,
     gameState = Menu, lastTime = 0\<rparr>"

text \<open>The application created in \<open>useEffect\<close>: \<open>app.init({width: 1280, height: 720, ...})\<close>.\<close>

definition theApp :: app where
  "theApp = \<lparr>screen_width = 1280, screen_height = 720\<rparr>"

section \<open>Entity constructors\<close>

definition createPlayer :: "app \<Rightarrow> GameObject" where
  "createPlayer a = \<lparr>x = screen_width a / 2, y = screen_height a - 60,
     width = 30, height = 40, vy = None\<rparr>"

definition createBullet :: "real \<Rightarrow> real \<Rightarrow> bool \<Rightarrow> GameObject" where
  "createBullet bx by isPlayerBullet = \<lparr>x = bx, y = by, width = 6, height = 6,
     vy = Some (if isPlayerBullet then - 8 else 6)\<rparr>"

definition createAsteroid :: "real \<Rightarrow> real \<Rightarrow> GameObject" where
  "createAsteroid ax ay = \<lparr>x = ax, y = ay, width = 60, height = 60, vy = None\<rparr>"

text \<open>\<open>createBoss\<close> reads the clock for \<open>moveStartTime\<close>; the reading is the argument \<open>t\<close>.\<close>

definition createBoss :: "app \<Rightarrow> int \<Rightarrow> Boss" where
  "createBoss a t = \<lparr>x = screen_width a / 2, y = 100, width = 80, height = 60, vy = None,
     hp = 4, maxHp = 4, lastShot = 0, movingRight = True, moveStartTime = t\<rparr>"

section \<open>The collision test\<close>

text \<open>The four edges and the test of lines 204 to 220 on exact reals. This is the test
  the model of the tick uses; the version that rounds as the source does follows in the
  next section.\<close>

definition obj_left :: "'a GameObject_scheme \<Rightarrow> real" where
  "obj_left obj = x obj - width obj / 2"

definition obj_right :: "'a GameObject_scheme \<Rightarrow> real" where
  "obj_right obj = x obj + width obj / 2"

definition obj_top :: "'a GameObject_scheme \<Rightarrow> real" where
  "obj_top obj = y obj - height obj / 2"

definition obj_bottom :: "'a GameObject_scheme \<Rightarrow> real" where
  "obj_bottom obj = y obj + height obj / 2"

definition checkCollision :: "'a GameObject_scheme \<Rightarrow> 'b GameObject_scheme \<Rightarrow> bool" where
  "checkCollision obj1 obj2 \<longleftrightarrow>
     obj_left obj1 < obj_right obj2 \<and>
     obj_right obj1 > obj_left obj2 \<and>
     obj_top obj1 < obj_bottom obj2 \<and>
     obj_bottom obj1 > obj_top obj2"





section \<open>The collision test in double precision\<close>

text \<open>
  The source computes every edge in binary64: \<open>obj.width / 2\<close> is rounded, and so is the
  sum or difference with \<open>obj.x\<close>. \<open>fl\<close> is that rounding, to the nearest double with
  ties to the even significand, on the exact value of the result. \<open>checkCollision_double\<close>
  is lines 204 to 220 with these roundings; \<open>checkCollision\<close> above is the same test on
  the unrounded edges, and the two agree wherever the edges are exact.
\<close>

text \<open>Round to the nearest integer, ties to even.\<close>

definition round_even :: "real \<Rightarrow> int" where
  "round_even q =
     (let f = \<lfloor>q\<rfloor>
      in if q - of_int f < 1 / 2 then f
         else if 1 / 2 < q - of_int f then f + 1
         else if even f then f else f + 1)"













section \<open>Level initialisation\<close>

text \<open>
  \<open>Math.random()\<close> is an input: \<open>rx i\<close> and \<open>ry i\<close> are the two draws that place the
  \<open>i\<close>-th asteroid. The draws that only shape sprites are not modelled.
\<close>

primrec spawnAsteroids :: "app \<Rightarrow> (nat \<Rightarrow> real) \<Rightarrow> (nat \<Rightarrow> real) \<Rightarrow> nat \<Rightarrow> GameObject list" where
  "spawnAsteroids a rx ry 0 = []"
| "spawnAsteroids a rx ry (Suc i) =
     spawnAsteroids a rx ry i @
       [createAsteroid (rx i * (screen_width a - 60) + 30) (ry i * 300 + 50)]"

text \<open>\<open>appRef.current\<close> is the first argument: \<open>None\<close> until the renderer is attached.\<close>

definition startLevel1 :: "app option \<Rightarrow> (nat \<Rightarrow> real) \<Rightarrow> (nat \<Rightarrow> real) \<Rightarrow> int \<Rightarrow> game \<Rightarrow> game" where
  "startLevel1 appRef rx ry t g =
     (case appRef of
        None \<Rightarrow> g
      | Some a \<Rightarrow>
          g\<lparr>player := Some (createPlayer a),
            asteroids := spawnAsteroids a rx ry 5,
            bullets := [],
            bulletsRemaining := 10,
            timeRemaining := 60,
            gameState := Level1,
            lastTime := t\<rparr>)"

text \<open>\<open>startLevel2\<close> reads the clock twice: \<open>tb\<close> in \<open>createBoss\<close>, \<open>t\<close> for \<open>lastTime\<close>.\<close>

definition startLevel2 :: "app option \<Rightarrow> int \<Rightarrow> int \<Rightarrow> game \<Rightarrow> game" where
  "startLevel2 appRef tb t g =
     (case appRef of
        None \<Rightarrow> g
      | Some a \<Rightarrow>
          g\<lparr>player := Some (createPlayer a),
            boss := Some (createBoss a tb),
            bossBullets := [],
            bullets := [],
            bulletsRemaining := 10,
            timeRemaining := 60,
            gameState := Level2,
            lastTime := t\<rparr>)"

definition restartGame :: "app option \<Rightarrow> game \<Rightarrow> game" where
  "restartGame appRef g =
     (case appRef of
        None \<Rightarrow> g
      | Some a \<Rightarrow>
          g\<lparr>gameState := Menu, bullets := [], asteroids := [], boss := None,
            bossBullets := [], player := None\<rparr>)"

section \<open>Keyboard handlers\<close>

definition handleKeyDown :: "string \<Rightarrow> game \<Rightarrow> game" where
  "handleKeyDown code g =
     (let g1 = g\<lparr>keys := (keys g)(code \<mapsto> True)\<rparr> in
      if code = ''Space'' \<and> bulletsRemaining g1 > 0
      then (case player g1 of
              None \<Rightarrow> g1
            | Some p \<Rightarrow>
                g1\<lparr>bullets := bullets g1 @ [createBullet (x p) (y p - 20) True],
                   bulletsRemaining := bulletsRemaining g1 - 1\<rparr>)
      else g1)"

definition handleKeyUp :: "string \<Rightarrow> game \<Rightarrow> game" where
  "handleKeyUp code g = g\<lparr>keys := (keys g)(code \<mapsto> False)\<rparr>"

section \<open>The frame updater\<close>

text \<open>\<open>xs.splice(i, 1)\<close>: removes the element at index \<open>i\<close>; nothing happens when
  \<open>i\<close> is past the end.\<close>

definition splice1 :: "nat \<Rightarrow> 'a list \<Rightarrow> 'a list" where
  "splice1 i xs = take i xs @ drop (Suc i) xs"

text \<open>\<open>bullet.y += bullet.vy!\<close>. Every element of the two bullet collections is built
  by \<open>createBullet\<close>, which sets \<open>vy\<close>; the source asserts as much with \<open>!\<close>. The
  \<open>None\<close> branch is never taken from a state the program builds.\<close>

definition advance :: "GameObject \<Rightarrow> GameObject" where
  "advance b = (case vy b of Some v \<Rightarrow> b\<lparr>y := y b + v\<rparr> | None \<Rightarrow> b)"

definition tickTimer :: "int \<Rightarrow> game \<Rightarrow> game" where
  "tickTimer currentTime g =
     g\<lparr>timeRemaining := timeRemaining g - real_of_int (currentTime - lastTime g) / 1000,
       lastTime := currentTime\<rparr>"

definition keyHeld :: "game \<Rightarrow> string \<Rightarrow> bool" where
  "keyHeld g code \<longleftrightarrow> keys g code = Some True"

definition movePlayer :: "app \<Rightarrow> game \<Rightarrow> game" where
  "movePlayer a g =
     (case player g of
        None \<Rightarrow> g
      | Some p \<Rightarrow>
          (let p1 = (if keyHeld g ''ArrowLeft'' \<and> x p > 15 then p\<lparr>x := x p - 5\<rparr> else p);
               p2 = (if keyHeld g ''ArrowRight'' \<and> x p1 < screen_width a - 15
                     then p1\<lparr>x := x p1 + 5\<rparr> else p1)
           in g\<lparr>player := Some p2\<rparr>))"

text \<open>
  \<open>gameState.bullets.forEach((bullet, index) => ...)\<close> with a \<open>splice\<close> in the callback.
  \<open>forEach\<close> fixes the number of indices to visit when it starts (the first argument
  counts the ones left), visits index \<open>k\<close> only if it is still inside the array, and
  reads the element that is at \<open>k\<close> at that moment.
\<close>

fun bulletsForEach :: "nat \<Rightarrow> nat \<Rightarrow> GameObject list \<Rightarrow> GameObject list" where
  "bulletsForEach 0 k bs = bs"
| "bulletsForEach (Suc n) k bs =
     (if k < length bs
      then (let b = advance (bs ! k); bs1 = bs[k := b]
            in bulletsForEach n (Suc k) (if y b < 0 then splice1 k bs1 else bs1))
      else bulletsForEach n (Suc k) bs)"

definition updateBullets :: "GameObject list \<Rightarrow> GameObject list" where
  "updateBullets bs = bulletsForEach (length bs) 0 bs"

text \<open>Level one: the two backward \<open>for\<close> loops. \<open>findAsteroid b asts i\<close> scans the indices
  \<open>i - 1\<close> down to \<open>0\<close> and returns the first one whose asteroid overlaps \<open>b\<close>.\<close>

fun findAsteroid :: "GameObject \<Rightarrow> GameObject list \<Rightarrow> nat \<Rightarrow> nat option" where
  "findAsteroid b asts 0 = None"
| "findAsteroid b asts (Suc i) =
     (if checkCollision b (asts ! i) then Some i else findAsteroid b asts i)"

fun bulletAsteroidLoop ::
  "nat \<Rightarrow> GameObject list \<times> GameObject list \<Rightarrow> GameObject list \<times> GameObject list" where
  "bulletAsteroidLoop 0 (bs, asts) = (bs, asts)"
| "bulletAsteroidLoop (Suc bi) (bs, asts) =
     (case findAsteroid (bs ! bi) asts (length asts) of
        None \<Rightarrow> bulletAsteroidLoop bi (bs, asts)
      | Some ai \<Rightarrow> bulletAsteroidLoop bi (splice1 bi bs, splice1 ai asts))"

definition level1Collisions :: "game \<Rightarrow> game" where
  "level1Collisions g =
     (case bulletAsteroidLoop (length (bullets g)) (bullets g, asteroids g) of
        (bs, asts) \<Rightarrow> g\<lparr>bullets := bs, asteroids := asts\<rparr>)"

text \<open>JavaScript's \<open>%\<close> takes the sign of the dividend.\<close>

definition js_rem :: "int \<Rightarrow> int \<Rightarrow> int" where
  "js_rem a b = sgn a * (\<bar>a\<bar> mod \<bar>b\<bar>)"

definition movePhase :: "int \<Rightarrow> Boss \<Rightarrow> int" where
  "movePhase currentTime b = js_rem ((currentTime - moveStartTime b) div 3000) 2"

definition bossMovement :: "app \<Rightarrow> int \<Rightarrow> Boss \<Rightarrow> Boss" where
  "bossMovement a currentTime b =
     (if movePhase currentTime b = 1
      then (if movingRight b
            then (let b1 = b\<lparr>x := x b + 2\<rparr>
                  in if x b1 > screen_width a - 40 then b1\<lparr>movingRight := False\<rparr> else b1)
            else (let b1 = b\<lparr>x := x b - 2\<rparr>
                  in if x b1 < 40 then b1\<lparr>movingRight := True\<rparr> else b1))
      else b)"

definition bossShooting :: "int \<Rightarrow> Boss \<times> GameObject list \<Rightarrow> Boss \<times> GameObject list" where
  "bossShooting currentTime st =
     (case st of (b, bbs) \<Rightarrow>
        if currentTime - lastShot b > 2000
        then (b\<lparr>lastShot := currentTime\<rparr>, bbs @ [createBullet (x b) (y b + 30) False])
        else (b, bbs))"

text \<open>The inner \<open>gameState.bullets.forEach\<close> of the boss-bullet callback: \<open>bullet\<close> is the
  boss bullet of the callback and \<open>index\<close> the index the callback was called with.\<close>

fun cancelForEach ::
  "GameObject \<Rightarrow> nat \<Rightarrow> nat \<Rightarrow> nat \<Rightarrow> GameObject list \<times> GameObject list
     \<Rightarrow> GameObject list \<times> GameObject list" where
  "cancelForEach bullet index 0 k (bbs, bs) = (bbs, bs)"
| "cancelForEach bullet index (Suc n) k (bbs, bs) =
     (if k < length bs
      then (if checkCollision bullet (bs ! k)
            then cancelForEach bullet index n (Suc k) (splice1 index bbs, splice1 k bs)
            else cancelForEach bullet index n (Suc k) (bbs, bs))
      else cancelForEach bullet index n (Suc k) (bbs, bs))"

text \<open>The callback of \<open>gameState.bossBullets.forEach\<close>, on the boss bullets, the player
  bullets and the outcome. Its \<open>return\<close> after a hit on the player leaves the callback
  only: the \<open>forEach\<close> and the rest of the tick go on.\<close>

definition bossBulletCallback ::
  "app \<Rightarrow> GameObject option \<Rightarrow> nat \<Rightarrow> GameObject list \<times> GameObject list \<times> GameState
     \<Rightarrow> GameObject list \<times> GameObject list \<times> GameState" where
  "bossBulletCallback a pl index st =
     (case st of (bbs, bs, gs) \<Rightarrow>
        (let bullet = advance (bbs ! index);
             bbs1 = bbs[index := bullet];
             bbs2 = (if y bullet > screen_height a then splice1 index bbs1 else bbs1)
         in if (case pl of None \<Rightarrow> False | Some p \<Rightarrow> checkCollision bullet p)
            then (bbs2, bs, Lose)
            else (case cancelForEach bullet index (length bs) 0 (bbs2, bs) of
                    (bbs3, bs3) \<Rightarrow> (bbs3, bs3, gs))))"

fun bossBulletsForEach ::
  "app \<Rightarrow> GameObject option \<Rightarrow> nat \<Rightarrow> nat \<Rightarrow> GameObject list \<times> GameObject list \<times> GameState
     \<Rightarrow> GameObject list \<times> GameObject list \<times> GameState" where
  "bossBulletsForEach a pl 0 k st = st"
| "bossBulletsForEach a pl (Suc n) k st =
     (if k < length (fst st)
      then bossBulletsForEach a pl n (Suc k) (bossBulletCallback a pl k st)
      else bossBulletsForEach a pl n (Suc k) st)"

text \<open>The player-versus-boss test of the source, with its distance gate.\<close>

definition playerHitsBoss :: "GameObject \<Rightarrow> Boss \<Rightarrow> bool" where
  "playerHitsBoss p b \<longleftrightarrow>
     \<bar>x p - x b\<bar> + \<bar>y p - y b\<bar> < 50 \<and> checkCollision p b"

text \<open>The same test without the gate, as the specification's design note proposes it;
  it is not in the source and serves only to compare the two.\<close>

definition playerHitsBoss_ungated :: "GameObject \<Rightarrow> Boss \<Rightarrow> bool" where
  "playerHitsBoss_ungated p b \<longleftrightarrow> checkCollision p b"

text \<open>The backward loop of player bullets against the boss. The flag says whether the
  loop left through the \<open>return\<close> of the win branch.\<close>

fun bulletBossLoop :: "nat \<Rightarrow> GameObject list \<times> Boss \<Rightarrow> (GameObject list \<times> Boss) \<times> bool" where
  "bulletBossLoop 0 (bs, b) = ((bs, b), False)"
| "bulletBossLoop (Suc bi) (bs, b) =
     (if checkCollision (bs ! bi) b
      then (let bs1 = splice1 bi bs; b1 = b\<lparr>hp := hp b - 1\<rparr>
            in if hp b1 = 0 then ((bs1, b1), True) else bulletBossLoop bi (bs1, b1))
      else bulletBossLoop bi (bs, b))"

text \<open>The first half of the level-two block: the boss moves and shoots. The boss object is
  changed in place, so the state holds the new boss afterwards.\<close>

definition bossTurn :: "app \<Rightarrow> int \<Rightarrow> Boss \<Rightarrow> game \<Rightarrow> game" where
  "bossTurn a currentTime b0 g =
     (case bossShooting currentTime (bossMovement a currentTime b0, bossBullets g) of
        (b2, bbs2) \<Rightarrow> g\<lparr>boss := Some b2, bossBullets := bbs2\<rparr>)"

definition updateBossBullets :: "app \<Rightarrow> game \<Rightarrow> game" where
  "updateBossBullets a g =
     (case bossBulletsForEach a (player g) (length (bossBullets g)) 0
             (bossBullets g, bullets g, gameState g) of
        (bbs3, bs3, gs3) \<Rightarrow> g\<lparr>bossBullets := bbs3, bullets := bs3, gameState := gs3\<rparr>)"

text \<open>The end of the level-two block; \<open>hit\<close> is the player-versus-boss test.\<close>

definition level2Outcome :: "(GameObject \<Rightarrow> Boss \<Rightarrow> bool) \<Rightarrow> Boss \<Rightarrow> game \<Rightarrow> game" where
  "level2Outcome hit b2 g3 =
     (if (case player g3 of None \<Rightarrow> False | Some p \<Rightarrow> hit p b2)
      then g3\<lparr>gameState := Lose\<rparr>
      else (case bulletBossLoop (length (bullets g3)) (bullets g3, b2) of
              ((bs4, b4), won) \<Rightarrow>
                if won then g3\<lparr>bullets := bs4, boss := Some b4, gameState := Win\<rparr>
                else (let g4 = g3\<lparr>bullets := bs4, boss := Some b4\<rparr>
                      in if bulletsRemaining g4 = 0 \<and> bullets g4 = []
                         then g4\<lparr>gameState := Lose\<rparr> else g4)))"

text \<open>The level-two block from the boss bullets on.\<close>

definition level2Tail :: "(GameObject \<Rightarrow> Boss \<Rightarrow> bool) \<Rightarrow> app \<Rightarrow> game \<Rightarrow> game" where
  "level2Tail hit a g2 =
     (let g3 = updateBossBullets a g2
      in case boss g3 of None \<Rightarrow> g3 | Some b2 \<Rightarrow> level2Outcome hit b2 g3)"

definition level2Logic :: "(GameObject \<Rightarrow> Boss \<Rightarrow> bool) \<Rightarrow> app \<Rightarrow> int \<Rightarrow> game \<Rightarrow> game" where
  "level2Logic hit a currentTime g =
     (if gameState g = Level2
      then (case boss g of
              None \<Rightarrow> g
            | Some b0 \<Rightarrow> level2Tail hit a (bossTurn a currentTime b0 g))
      else g)"

text \<open>The state of a running tick when the level blocks begin: timer, player movement
  and player bullets done.\<close>

definition beforeLevels :: "app \<Rightarrow> int \<Rightarrow> game \<Rightarrow> game" where
  "beforeLevels a currentTime g =
     (let g2 = movePlayer a (tickTimer currentTime g)
      in g2\<lparr>bullets := updateBullets (bullets g2)\<rparr>)"

text \<open>\<open>gameLoop\<close>. \<open>appRef\<close> is \<open>appRef.current\<close>, \<open>currentTime\<close> the clock reading at the
  start of the tick, \<open>tb\<close> and \<open>t\<close> the two readings \<open>startLevel2\<close> takes if it is called.\<close>

definition gameLoopWith ::
  "(GameObject \<Rightarrow> Boss \<Rightarrow> bool) \<Rightarrow> app option \<Rightarrow> int \<Rightarrow> int \<Rightarrow> int \<Rightarrow> game \<Rightarrow> game" where
  "gameLoopWith hit appRef currentTime tb t g =
     (case appRef of
        None \<Rightarrow> g
      | Some a \<Rightarrow>
          if gameState g = Menu \<or> gameState g = Win \<or> gameState g = Lose then g
          else if timeRemaining (tickTimer currentTime g) \<le> 0
          then (tickTimer currentTime g)\<lparr>gameState := Lose\<rparr>
          else (let g3 = beforeLevels a currentTime g
                in if gameState g3 = Level1
                   then (let g4 = level1Collisions g3
                         in if asteroids g4 = [] then startLevel2 (Some a) tb t g4
                            else if bulletsRemaining g4 = 0 \<and> bullets g4 = []
                            then g4\<lparr>gameState := Lose\<rparr>
                            else level2Logic hit a currentTime g4)
                   else level2Logic hit a currentTime g3))"

definition gameLoop :: "app option \<Rightarrow> int \<Rightarrow> int \<Rightarrow> int \<Rightarrow> game \<Rightarrow> game" where
  "gameLoop = gameLoopWith playerHitsBoss"

definition gameLoop_ungated :: "app option \<Rightarrow> int \<Rightarrow> int \<Rightarrow> int \<Rightarrow> game \<Rightarrow> game" where
  "gameLoop_ungated = gameLoopWith playerHitsBoss_ungated"

section \<open>Sessions\<close>

text \<open>
  What can happen to the component after it is mounted: the renderer finishes its
  initialisation, a button calls \<open>startLevel1\<close> or \<open>restartGame\<close>, the interval timer
  calls \<open>gameLoop\<close>, a key goes down or up. The buttons' enabling conditions and the
  order of clock readings are not modelled: every event is allowed in every state, so
  the states of \<open>run\<close> include every state the program can be in.
\<close>

datatype event =
    AppReady
  | StartLevel1 "nat \<Rightarrow> real" "nat \<Rightarrow> real" int
  | RestartGame
  | Tick int int int
  | KeyDown string
  | KeyUp string

fun step :: "event \<Rightarrow> app option \<times> game \<Rightarrow> app option \<times> game" where
  "step AppReady (r, g) = (Some theApp, g)"
| "step (StartLevel1 rx ry t) (r, g) = (r, startLevel1 r rx ry t g)"
| "step RestartGame (r, g) = (r, restartGame r g)"
| "step (Tick currentTime tb t) (r, g) = (r, gameLoop r currentTime tb t g)"
| "step (KeyDown code) (r, g) = (r, handleKeyDown code g)"
| "step (KeyUp code) (r, g) = (r, handleKeyUp code g)"

definition run :: "event list \<Rightarrow> app option \<times> game" where
  "run evs = foldl (\<lambda>st e. step e st) (None, initialGame) evs"

section \<open>The bullet update as the specification words it\<close>

text \<open>"Advance every player bullet's y position by its fixed upward velocity; any bullet
  whose y drops below the top edge is removed." This definition follows that sentence,
  not the source, and is only compared with \<open>updateBullets\<close>.\<close>

definition updateBullets_spec :: "GameObject list \<Rightarrow> GameObject list" where
  "updateBullets_spec bs = filter (\<lambda>b. \<not> y b < 0) (map advance bs)"

section \<open>Concrete states\<close>

definition halfDraws :: "nat \<Rightarrow> real" where
  "halfDraws i = 1 / 2"

text \<open>A level-one state with one asteroid left, the last bullet in flight eight units
  below the place where it overlaps the asteroid, and \<open>secs\<close> seconds on the clock.\<close>

definition lastShotGame :: "real \<Rightarrow> game" where
  "lastShotGame secs = \<lparr>player = Some (createPlayer theApp),
     bullets = [createBullet 640 208 True], asteroids = [createAsteroid 640 200],
     boss = None, bossBullets = [], keys = Map.empty, bulletsRemaining = 0,
     timeRemaining = secs, gameState = Level1, lastTime = 0\<rparr>"

text \<open>Level two 1984 ms after the boss's first shot at time \<open>t0\<close>: the level began one
  tick before that shot, the bullet has left the screen, and the boss is still in its
  first, stationary phase.\<close>

definition bossGame :: "int \<Rightarrow> game" where
  "bossGame t0 = \<lparr>player = Some (createPlayer theApp), bullets = [], asteroids = [],
     boss = Some ((createBoss theApp (t0 - 16))\<lparr>lastShot := t0\<rparr>), bossBullets = [],
     keys = Map.empty, bulletsRemaining = 10, timeRemaining = 58, gameState = Level2,
     lastTime = t0 + 1984\<rparr>"

text \<open>A lost level two: the boss and one of its bullets are still in the state.\<close>

definition lostLevel2Game :: game where
  "lostLevel2Game = \<lparr>player = Some (createPlayer theApp), bullets = [], asteroids = [],
     boss = Some (createBoss theApp 0), bossBullets = [createBullet 640 300 False],
     keys = Map.empty, bulletsRemaining = 0, timeRemaining = 40, gameState = Lose,
     lastTime = 0\<rparr>"

text \<open>Level one with ammunition left and ten milliseconds on the clock.\<close>

definition lateGame :: game where
  "lateGame = \<lparr>player = Some (createPlayer theApp), bullets = [],
     asteroids = [createAsteroid 100 100], boss = None, bossBullets = [],
     keys = Map.empty, bulletsRemaining = 3, timeRemaining = 1 / 100, gameState = Level1,
     lastTime = 0\<rparr>"

text \<open>A level-one state with one bullet that overlaps two asteroids at once.\<close>

definition doubleHitGame :: game where
  "doubleHitGame = \<lparr>player = Some (createPlayer theApp),
     bullets = [createBullet 640 200 True],
     asteroids = [createAsteroid 640 200, createAsteroid 640 210],
     boss = None, bossBullets = [], keys = Map.empty, bulletsRemaining = 9,
     timeRemaining = 30, gameState = Level1, lastTime = 0\<rparr>"

section \<open>Two concrete sessions\<close>

text \<open>
  \<open>volley rx n\<close>: the renderer gets ready, level one starts with the horizontal draws
  \<open>rx\<close> (every vertical draw is one half, which puts the asteroids at \<open>y = 200\<close>), and the
  fire key goes down \<open>n\<close> times before the next tick. \<open>ticks k\<close> are the first \<open>k\<close> ticks,
  16 ms apart. \<open>flying rx n k\<close> is the state after the volley and \<open>k\<close> ticks, as long as
  the bullets have met nothing.
\<close>

definition zeroDraws :: "nat \<Rightarrow> real" where
  "zeroDraws i = 0"

definition ticks :: "nat \<Rightarrow> event list" where
  "ticks k = map (\<lambda>i. Tick (16 * int i) 0 0) [1..<Suc k]"

definition volley :: "(nat \<Rightarrow> real) \<Rightarrow> nat \<Rightarrow> event list" where
  "volley rx n = [AppReady, StartLevel1 rx halfDraws 0] @ replicate n (KeyDown ''Space'')"

definition flying :: "(nat \<Rightarrow> real) \<Rightarrow> nat \<Rightarrow> nat \<Rightarrow> game" where
  "flying rx n k = \<lparr>player = Some (createPlayer theApp),
     bullets = replicate n (createBullet 640 (640 - 8 * real k) True),
     asteroids = spawnAsteroids theApp rx halfDraws 5,
     boss = None, bossBullets = [], keys = [''Space'' \<mapsto> True],
     bulletsRemaining = 10 - int n, timeRemaining = 60 - 16 * real k / 1000,
     gameState = Level1, lastTime = 16 * int k\<rparr>"

section \<open>What a session keeps invariant\<close>

text \<open>The vertical extent of an object: its \<open>y\<close> and its \<open>height\<close>. Nothing in the program
  changes either field of the player or of the boss.\<close>

definition vgeom :: "'a GameObject_scheme \<Rightarrow> real \<times> real" where
  "vgeom obj = (y obj, height obj)"

definition session_inv :: "app option \<times> game \<Rightarrow> bool" where
  "session_inv st \<longleftrightarrow>
     (fst st = None \<or> fst st = Some theApp) \<and>
     0 \<le> bulletsRemaining (snd st) \<and>
     (map_option vgeom (player (snd st)) = None \<or>
      map_option vgeom (player (snd st)) = Some (660, 40)) \<and>
     (map_option vgeom (boss (snd st)) = None \<or>
      map_option vgeom (boss (snd st)) = Some (100, 60))"

section \<open>The exponent and the unit in the last place\<close>






section \<open>Rounding to double precision is monotone\<close>

lemma round_even_of_int [simp]: "round_even (of_int n) = n"
  by (simp add: round_even_def)























section \<open>Evaluating the rounding\<close>




section \<open>What the collision test decides\<close>









section \<open>Fields that the phases of a tick leave alone\<close>

lemma vgeom_update [simp]:
  "vgeom (obj\<lparr>x := v\<rparr>) = vgeom obj"
  "vgeom (b\<lparr>hp := h\<rparr>) = vgeom b"
  "vgeom (b\<lparr>lastShot := c\<rparr>) = vgeom b"
  "vgeom (b\<lparr>movingRight := m\<rparr>) = vgeom b"
  by (simp_all add: vgeom_def)

lemma tickTimer_fields [simp]:
  "player (tickTimer c g) = player g" "bullets (tickTimer c g) = bullets g"
  "asteroids (tickTimer c g) = asteroids g" "boss (tickTimer c g) = boss g"
  "bossBullets (tickTimer c g) = bossBullets g" "keys (tickTimer c g) = keys g"
  "bulletsRemaining (tickTimer c g) = bulletsRemaining g"
  "gameState (tickTimer c g) = gameState g"
  by (simp_all add: tickTimer_def)

lemma movePlayer_fields [simp]:
  "bullets (movePlayer a g) = bullets g"
  "asteroids (movePlayer a g) = asteroids g" "boss (movePlayer a g) = boss g"
  "bossBullets (movePlayer a g) = bossBullets g" "keys (movePlayer a g) = keys g"
  "bulletsRemaining (movePlayer a g) = bulletsRemaining g"
  "gameState (movePlayer a g) = gameState g"
  "timeRemaining (movePlayer a g) = timeRemaining g"
  by (simp_all add: movePlayer_def Let_def split: option.splits)

lemma movePlayer_player [simp]:
  "map_option vgeom (player (movePlayer a g)) = map_option vgeom (player g)"
  "(player (movePlayer a g) = None) = (player g = None)"
  by (simp_all add: movePlayer_def Let_def split: option.splits)

lemma beforeLevels_fields [simp]:
  "asteroids (beforeLevels a c g) = asteroids g" "boss (beforeLevels a c g) = boss g"
  "bossBullets (beforeLevels a c g) = bossBullets g"
  "bulletsRemaining (beforeLevels a c g) = bulletsRemaining g"
  "gameState (beforeLevels a c g) = gameState g"
  "map_option vgeom (player (beforeLevels a c g)) = map_option vgeom (player g)"
  "(player (beforeLevels a c g) = None) = (player g = None)"
  "timeRemaining (beforeLevels a c g) = timeRemaining (tickTimer c g)"
  by (simp_all add: beforeLevels_def Let_def)

lemma level1Collisions_fields [simp]:
  "player (level1Collisions g) = player g" "boss (level1Collisions g) = boss g"
  "bossBullets (level1Collisions g) = bossBullets g"
  "bulletsRemaining (level1Collisions g) = bulletsRemaining g"
  "gameState (level1Collisions g) = gameState g"
  "timeRemaining (level1Collisions g) = timeRemaining g"
  by (simp_all add: level1Collisions_def split: prod.splits)

lemma bossMovement_fields [simp]:
  "vgeom (bossMovement a c b) = vgeom b" "lastShot (bossMovement a c b) = lastShot b"
  "y (bossMovement a c b) = y b"
  by (simp_all add: bossMovement_def Let_def)

lemma bossTurn_fields [simp]:
  "player (bossTurn a c b g) = player g" "bullets (bossTurn a c b g) = bullets g"
  "asteroids (bossTurn a c b g) = asteroids g"
  "bulletsRemaining (bossTurn a c b g) = bulletsRemaining g"
  "gameState (bossTurn a c b g) = gameState g"
  by (simp_all add: bossTurn_def bossShooting_def split: prod.splits)

lemma bossTurn_boss:
  "\<exists>b2. boss (bossTurn a c b g) = Some b2 \<and> vgeom b2 = vgeom b"
  by (simp add: bossTurn_def bossShooting_def)

lemma updateBossBullets_fields [simp]:
  "player (updateBossBullets a g) = player g" "boss (updateBossBullets a g) = boss g"
  "asteroids (updateBossBullets a g) = asteroids g"
  "bulletsRemaining (updateBossBullets a g) = bulletsRemaining g"
  by (simp_all add: updateBossBullets_def split: prod.splits)

lemma bulletBossLoop_boss:
  "\<exists>h. snd (fst (bulletBossLoop n (bs, b))) = b\<lparr>hp := h\<rparr>"
proof (induction n arbitrary: bs b)
  case 0
  have "b = b\<lparr>hp := hp b\<rparr>" by simp
  then show ?case by (metis bulletBossLoop.simps(1) fst_conv snd_conv)
next
  case (Suc n)
  show ?case
  proof (cases "checkCollision (bs ! n) b \<and> hp b - 1 \<noteq> 0")
    case True
    obtain h where "snd (fst (bulletBossLoop n (splice1 n bs, b\<lparr>hp := hp b - 1\<rparr>))) = b\<lparr>hp := hp b - 1\<rparr>\<lparr>hp := h\<rparr>"
      using Suc.IH by blast
    with True show ?thesis by (auto simp: Let_def)
  next
    case False
    then show ?thesis using Suc.IH [of bs b] by (auto simp: Let_def)
  qed
qed

lemma level2Outcome_fields [simp]:
  "player (level2Outcome hit b2 g3) = player g3"
  "bulletsRemaining (level2Outcome hit b2 g3) = bulletsRemaining g3"
  by (simp_all add: level2Outcome_def Let_def split: prod.splits option.splits)

lemma level2Outcome_boss:
  assumes "boss g3 = Some b2"
  shows "\<exists>h. boss (level2Outcome hit b2 g3) = Some (b2\<lparr>hp := h\<rparr>)"
proof -
  obtain h where h: "snd (fst (bulletBossLoop (length (bullets g3)) (bullets g3, b2))) = b2\<lparr>hp := h\<rparr>"
    using bulletBossLoop_boss by blast
  have "b2 = b2\<lparr>hp := hp b2\<rparr>" by simp
  then have "\<exists>h. Some b2 = Some (b2\<lparr>hp := h\<rparr>)" by blast
  with h assms show ?thesis
    by (auto simp: level2Outcome_def Let_def split: prod.splits)
qed

lemma level2Tail_fields [simp]:
  "player (level2Tail hit a g) = player g"
  "bulletsRemaining (level2Tail hit a g) = bulletsRemaining g"
  by (simp_all add: level2Tail_def Let_def split: option.splits)

lemma level2Tail_boss:
  assumes "boss g = Some b2"
  shows "\<exists>h. boss (level2Tail hit a g) = Some (b2\<lparr>hp := h\<rparr>)"
  using assms level2Outcome_boss [of "updateBossBullets a g" b2 hit]
  by (simp add: level2Tail_def Let_def)

lemma level2Logic_fields [simp]:
  "player (level2Logic hit a c g) = player g"
  "bulletsRemaining (level2Logic hit a c g) = bulletsRemaining g"
  by (simp_all add: level2Logic_def split: option.splits)

lemma level2Logic_boss [simp]:
  "map_option vgeom (boss (level2Logic hit a c g)) = map_option vgeom (boss g)"
proof (cases "gameState g = Level2")
  case False
  then show ?thesis by (simp add: level2Logic_def)
next
  case True
  show ?thesis
  proof (cases "boss g")
    case None
    then show ?thesis by (simp add: level2Logic_def)
  next
    case (Some b0)
    obtain b2 where b2: "boss (bossTurn a c b0 g) = Some b2" "vgeom b2 = vgeom b0"
      using bossTurn_boss [of a c b0 g] by blast
    obtain h where "boss (level2Tail hit a (bossTurn a c b0 g)) = Some (b2\<lparr>hp := h\<rparr>)"
      using level2Tail_boss [OF b2(1)] by blast
    with True Some b2(2) show ?thesis by (simp add: level2Logic_def)
  qed
qed

section \<open>The tick as a whole\<close>

lemma gameLoopWith_cases:
  "gameLoopWith hit r c tb t g = g \<or>
   gameLoopWith hit r c tb t g = (tickTimer c g)\<lparr>gameState := Lose\<rparr> \<or>
   (\<exists>a. r = Some a \<and>
      (gameLoopWith hit r c tb t g = startLevel2 (Some a) tb t (level1Collisions (beforeLevels a c g)) \<or>
       gameLoopWith hit r c tb t g = (level1Collisions (beforeLevels a c g))\<lparr>gameState := Lose\<rparr> \<or>
       gameLoopWith hit r c tb t g = level2Logic hit a c (level1Collisions (beforeLevels a c g)) \<or>
       gameLoopWith hit r c tb t g = level2Logic hit a c (beforeLevels a c g)))"
  by (cases r) (simp_all add: gameLoopWith_def Let_def)

lemma gameLoopWith_bulletsRemaining:
  "bulletsRemaining (gameLoopWith hit r c tb t g) = bulletsRemaining g \<or>
   bulletsRemaining (gameLoopWith hit r c tb t g) = 10"
  using gameLoopWith_cases [of hit r c tb t g]
  by (auto simp: startLevel2_def)

lemma gameLoopWith_player:
  "map_option vgeom (player (gameLoopWith hit r c tb t g)) = map_option vgeom (player g) \<or>
   (\<exists>a. r = Some a \<and> player (gameLoopWith hit r c tb t g) = Some (createPlayer a))"
  using gameLoopWith_cases [of hit r c tb t g]
  by (auto simp: startLevel2_def)

lemma gameLoopWith_boss:
  "map_option vgeom (boss (gameLoopWith hit r c tb t g)) = map_option vgeom (boss g) \<or>
   (\<exists>a. r = Some a \<and> boss (gameLoopWith hit r c tb t g) = Some (createBoss a tb))"
  using gameLoopWith_cases [of hit r c tb t g]
  by (auto simp: startLevel2_def)

lemma gameLoopWith_player_kept:
  "player g \<noteq> None \<Longrightarrow> player (gameLoopWith hit r c tb t g) \<noteq> None"
  using gameLoopWith_cases [of hit r c tb t g]
  by (elim disjE exE conjE) (simp_all add: startLevel2_def del: not_None_eq)

lemma level2Tail_lastShot:
  assumes "boss g = Some b2"
  shows "map_option lastShot (boss (level2Tail hit a g)) = Some (lastShot b2)"
  using level2Tail_boss [OF assms, of hit a] by auto

section \<open>The session invariant\<close>

lemma vgeom_created [simp]:
  "vgeom (createPlayer theApp) = (660, 40)" "vgeom (createBoss theApp tb) = (100, 60)"
  by (simp_all add: vgeom_def createPlayer_def createBoss_def theApp_def)

lemma session_inv_step: "session_inv st \<Longrightarrow> session_inv (step e st)"
proof (cases st)
  case (Pair r g)
  assume inv: "session_inv st"
  show ?thesis
  proof (cases e)
    case AppReady
    with inv Pair show ?thesis by (simp add: session_inv_def)
  next
    case (StartLevel1 rx ry t)
    with inv Pair show ?thesis by (auto simp: session_inv_def startLevel1_def)
  next
    case RestartGame
    with inv Pair show ?thesis by (auto simp: session_inv_def restartGame_def)
  next
    case (Tick c tb t)
    from inv Pair have r: "r = None \<or> r = Some theApp" by (simp add: session_inv_def)
    have 1: "0 \<le> bulletsRemaining (gameLoop r c tb t g)"
      using gameLoopWith_bulletsRemaining [of playerHitsBoss r c tb t g] inv Pair
      by (auto simp: gameLoop_def session_inv_def)
    have 2: "map_option vgeom (player (gameLoop r c tb t g)) = None \<or>
      map_option vgeom (player (gameLoop r c tb t g)) = Some (660, 40)"
      using gameLoopWith_player [of playerHitsBoss r c tb t g] inv Pair r
      by (auto simp: gameLoop_def session_inv_def)
    have 3: "map_option vgeom (boss (gameLoop r c tb t g)) = None \<or>
      map_option vgeom (boss (gameLoop r c tb t g)) = Some (100, 60)"
      using gameLoopWith_boss [of playerHitsBoss r c tb t g] inv Pair r
      by (auto simp: gameLoop_def session_inv_def)
    from 1 2 3 r Tick Pair show ?thesis by (simp add: session_inv_def)
  next
    case (KeyDown code)
    with inv Pair show ?thesis
      by (auto simp: session_inv_def handleKeyDown_def Let_def split: option.splits)
  next
    case (KeyUp code)
    with inv Pair show ?thesis by (auto simp: session_inv_def handleKeyUp_def)
  qed
qed

lemma session_inv_run: "session_inv (run evs)"
proof (induction evs rule: rev_induct)
  case Nil
  show ?case by (simp add: run_def session_inv_def initialGame_def)
next
  case (snoc e evs)
  then show ?case using session_inv_step [of "run evs" e] by (simp add: run_def)
qed

lemma no_body_collision:
  assumes "vgeom p = (660, 40)" "vgeom b = (100, 60)"
  shows "\<not> checkCollision p b"
  using assms by (simp add: vgeom_def checkCollision_def obj_top_def obj_bottom_def)

lemma level2Outcome_cong:
  assumes "\<And>p. player g3 = Some p \<Longrightarrow> hit1 p b2 = hit2 p b2"
  shows "level2Outcome hit1 b2 g3 = level2Outcome hit2 b2 g3"
  using assms by (cases "player g3") (simp_all add: level2Outcome_def)

lemma level2Logic_cong:
  assumes "map_option vgeom (player g) = None \<or> map_option vgeom (player g) = Some (660, 40)"
    and "map_option vgeom (boss g) = None \<or> map_option vgeom (boss g) = Some (100, 60)"
  shows "level2Logic playerHitsBoss a c g = level2Logic playerHitsBoss_ungated a c g"
proof (cases "gameState g = Level2")
  case False
  then show ?thesis by (simp add: level2Logic_def)
next
  case True
  show ?thesis
  proof (cases "boss g")
    case None
    then show ?thesis by (simp add: level2Logic_def)
  next
    case (Some b0)
    define g2 where "g2 = bossTurn a c b0 g"
    define g3 where "g3 = updateBossBullets a g2"
    obtain b2 where b2: "boss g2 = Some b2" "vgeom b2 = vgeom b0"
      using bossTurn_boss [of a c b0 g] unfolding g2_def by blast
    from Some assms(2) have b0: "vgeom b0 = (100, 60)" by simp
    have bg3: "boss g3 = Some b2" by (simp add: g3_def b2)
    have "level2Outcome playerHitsBoss b2 g3 = level2Outcome playerHitsBoss_ungated b2 g3"
    proof (rule level2Outcome_cong)
      fix p assume "player g3 = Some p"
      then have "player g = Some p" by (simp add: g3_def g2_def)
      with assms(1) have "vgeom p = (660, 40)" by simp
      then have "\<not> checkCollision p b2" using no_body_collision b2(2) b0 by metis
      then show "playerHitsBoss p b2 = playerHitsBoss_ungated p b2"
        by (simp add: playerHitsBoss_def playerHitsBoss_ungated_def)
    qed
    with bg3 have "level2Tail playerHitsBoss a g2 = level2Tail playerHitsBoss_ungated a g2"
      by (simp add: level2Tail_def g3_def [symmetric])
    with True Some show ?thesis by (simp add: level2Logic_def g2_def)
  qed
qed

lemma gameLoop_ungated_eq:
  assumes "map_option vgeom (player g) = None \<or> map_option vgeom (player g) = Some (660, 40)"
    and "map_option vgeom (boss g) = None \<or> map_option vgeom (boss g) = Some (100, 60)"
  shows "gameLoop r c tb t g = gameLoop_ungated r c tb t g"
proof (cases r)
  case None
  then show ?thesis by (simp add: gameLoop_def gameLoop_ungated_def gameLoopWith_def)
next
  case (Some a)
  have 1: "level2Logic playerHitsBoss a c (beforeLevels a c g) =
        level2Logic playerHitsBoss_ungated a c (beforeLevels a c g)"
    by (rule level2Logic_cong) (use assms in simp_all)
  have 2: "level2Logic playerHitsBoss a c (level1Collisions (beforeLevels a c g)) =
        level2Logic playerHitsBoss_ungated a c (level1Collisions (beforeLevels a c g))"
    by (rule level2Logic_cong) (use assms in simp_all)
  show ?thesis
    by (simp add: Some gameLoop_def gameLoop_ungated_def gameLoopWith_def Let_def 1 2)
qed

section \<open>The level-one scan\<close>

lemma findAsteroid_Some:
  "findAsteroid b asts n = Some i \<Longrightarrow>
     i < n \<and> checkCollision b (asts ! i) \<and> (\<forall>j. i < j \<and> j < n \<longrightarrow> \<not> checkCollision b (asts ! j))"
proof (induction n)
  case 0
  then show ?case by simp
next
  case (Suc n)
  show ?case
  proof (cases "checkCollision b (asts ! n)")
    case True
    with Suc.prems show ?thesis by auto
  next
    case False
    with Suc.prems have "findAsteroid b asts n = Some i" by simp
    from Suc.IH [OF this] False show ?thesis
      by (auto simp: less_Suc_eq)
  qed
qed

lemma findAsteroid_None:
  "findAsteroid b asts n = None \<longleftrightarrow> (\<forall>j<n. \<not> checkCollision b (asts ! j))"
  by (induction n) (auto simp: less_Suc_eq)

lemma length_splice1: "i < length xs \<Longrightarrow> length (splice1 i xs) + 1 = length xs"
  by (simp add: splice1_def)

lemma bulletAsteroidLoop_lengths:
  "n \<le> length bs \<Longrightarrow> bulletAsteroidLoop n (bs, asts) = (bs', asts') \<Longrightarrow>
     length bs' \<le> length bs \<and> length asts' \<le> length asts \<and>
     length bs - length bs' = length asts - length asts'"
proof (induction n arbitrary: bs asts)
  case 0
  then show ?case by simp
next
  case (Suc n)
  show ?case
  proof (cases "findAsteroid (bs ! n) asts (length asts)")
    case None
    with Suc.prems have "bulletAsteroidLoop n (bs, asts) = (bs', asts')" by simp
    with Suc.IH [of bs asts] Suc.prems(1) show ?thesis by simp
  next
    case (Some ai)
    then have ai: "ai < length asts" using findAsteroid_Some by blast
    from Suc.prems(1) have n: "n < length bs" by simp
    from Some Suc.prems
    have run: "bulletAsteroidLoop n (splice1 n bs, splice1 ai asts) = (bs', asts')" by simp
    have "n \<le> length (splice1 n bs)" using length_splice1 [OF n] n by linarith
    from Suc.IH [OF this run] length_splice1 [OF n] length_splice1 [OF ai]
    show ?thesis by linarith
  qed
qed

section \<open>Evaluating concrete states\<close>

lemmas ctor_defs = createPlayer_def createBullet_def createAsteroid_def createBoss_def theApp_def
lemmas box_defs = checkCollision_def obj_left_def obj_right_def obj_top_def obj_bottom_def
lemmas tick_defs = gameLoop_def gameLoopWith_def tickTimer_def beforeLevels_def movePlayer_def
  keyHeld_def updateBullets_def advance_def splice1_def level1Collisions_def
  level2Logic_def level2Tail_def bossTurn_def bossShooting_def bossMovement_def movePhase_def
  js_rem_def updateBossBullets_def bossBulletCallback_def level2Outcome_def playerHitsBoss_def
  startLevel2_def

section \<open>Bullets in flight\<close>

lemma run_snoc: "run (evs @ [e]) = step e (run evs)"
  by (simp add: run_def)

lemma ticks_Suc: "ticks (Suc k) = ticks k @ [Tick (16 * int (Suc k)) 0 0]"
  by (simp add: ticks_def)

lemma bulletsForEach_no_exit:
  "\<forall>b\<in>set (drop k bs). \<not> y (advance b) < 0 \<Longrightarrow> k + n = length bs \<Longrightarrow>
     bulletsForEach n k bs = take k bs @ map advance (drop k bs)"
proof (induction n arbitrary: k bs)
  case 0
  then show ?case by simp
next
  case (Suc n)
  from Suc.prems(2) have k: "k < length bs" by simp
  define b where "b = advance (bs ! k)"
  define bs1 where "bs1 = bs[k := b]"
  have "bs ! k \<in> set (drop k bs)" using k by (metis Cons_nth_drop_Suc list.set_intros(1))
  with Suc.prems(1) have stay: "\<not> y b < 0" by (simp add: b_def)
  have d: "drop (Suc k) bs1 = drop (Suc k) bs" by (simp add: bs1_def)
  have "\<forall>b\<in>set (drop (Suc k) bs1). \<not> y (advance b) < 0"
    using Suc.prems(1) d set_drop_subset_set_drop [of k "Suc k" bs] by auto
  moreover have "Suc k + n = length bs1" using Suc.prems(2) by (simp add: bs1_def)
  ultimately have "bulletsForEach n (Suc k) bs1 = take (Suc k) bs1 @ map advance (drop (Suc k) bs1)"
    by (rule Suc.IH)
  also have "take (Suc k) bs1 = take k bs @ [b]"
    using k by (simp add: bs1_def take_Suc_conv_app_nth)
  also have "(take k bs @ [b]) @ map advance (drop (Suc k) bs1) = take k bs @ map advance (drop k bs)"
    using k by (simp add: d b_def Cons_nth_drop_Suc [symmetric])
  finally show ?case using k stay by (simp add: b_def bs1_def Let_def)
qed

lemma updateBullets_no_exit:
  "\<forall>b\<in>set bs. \<not> y (advance b) < 0 \<Longrightarrow> updateBullets bs = map advance bs"
  using bulletsForEach_no_exit [of 0 bs "length bs"] by (simp add: updateBullets_def)

lemma bulletAsteroidLoop_no_hit:
  "\<forall>b\<in>set bs. \<forall>a\<in>set asts. \<not> checkCollision b a \<Longrightarrow> n \<le> length bs \<Longrightarrow>
     bulletAsteroidLoop n (bs, asts) = (bs, asts)"
proof (induction n)
  case 0
  then show ?case by simp
next
  case (Suc n)
  then have "findAsteroid (bs ! n) asts (length asts) = None"
    by (simp add: findAsteroid_None)
  with Suc show ?case by simp
qed

lemma flight_tick:
  assumes "gameState g = Level1" and "0 < timeRemaining (tickTimer c g)"
    and "\<forall>b\<in>set (bullets g). \<not> y (advance b) < 0"
    and "\<forall>b\<in>set (bullets g). \<forall>a\<in>set (asteroids g). \<not> checkCollision (advance b) a"
    and "asteroids g \<noteq> []" and "bulletsRemaining g \<noteq> 0"
  shows "gameLoop (Some a) c tb t g =
    (movePlayer a (tickTimer c g))\<lparr>bullets := map advance (bullets g)\<rparr>"
proof -
  have 1: "beforeLevels a c g = (movePlayer a (tickTimer c g))\<lparr>bullets := map advance (bullets g)\<rparr>"
    using assms(3) by (simp add: beforeLevels_def Let_def updateBullets_no_exit)
  have 2: "level1Collisions (beforeLevels a c g) = beforeLevels a c g"
    unfolding 1 using assms(4)
    by (simp add: level1Collisions_def bulletAsteroidLoop_no_hit)
  show ?thesis
    using assms(1,2,5,6)
    by (simp add: gameLoop_def gameLoopWith_def Let_def 2 level2Logic_def) (simp add: 1)
qed

lemma flight:
  assumes "k < 80" and "n < 10"
    and "\<forall>a\<in>set (spawnAsteroids theApp rx halfDraws 5).
           \<not> checkCollision (createBullet 640 (640 - 8 * real (Suc k)) True) a"
  shows "gameLoop (Some theApp) (16 * int (Suc k)) 0 0 (flying rx n k) = flying rx n (Suc k)"
proof -
  have adv: "advance (createBullet 640 (640 - 8 * real k) True) =
      createBullet 640 (640 - 8 * real (Suc k)) True"
    by (simp add: advance_def createBullet_def)
  have "gameLoop (Some theApp) (16 * int (Suc k)) 0 0 (flying rx n k) =
    (movePlayer theApp (tickTimer (16 * int (Suc k)) (flying rx n k)))
      \<lparr>bullets := map advance (bullets (flying rx n k))\<rparr>"
  proof (rule flight_tick)
    show "0 < timeRemaining (tickTimer (16 * int (Suc k)) (flying rx n k))"
      using assms(1) by (simp add: tickTimer_def flying_def)
    show "\<forall>b\<in>set (bullets (flying rx n k)). \<not> y (advance b) < 0"
      using assms(1) by (simp add: flying_def adv) (simp add: createBullet_def)
    show "\<forall>b\<in>set (bullets (flying rx n k)).
       \<forall>a\<in>set (asteroids (flying rx n k)). \<not> checkCollision (advance b) a"
      using assms(3) by (simp add: flying_def adv)
    show "asteroids (flying rx n k) \<noteq> []" by (simp add: flying_def eval_nat_numeral)
    show "bulletsRemaining (flying rx n k) \<noteq> 0" using assms(2) by (simp add: flying_def)
  qed (simp add: flying_def)
  also have "\<dots> = flying rx n (Suc k)"
    by (simp add: flying_def movePlayer_def keyHeld_def tickTimer_def adv Let_def)
      (simp add: field_simps)
  finally show ?thesis .
qed

lemma flight_run:
  assumes "run evs = (Some theApp, flying rx n 0)" and "n < 10" and "m \<le> 80"
    and "\<forall>k<m. \<forall>a\<in>set (spawnAsteroids theApp rx halfDraws 5).
           \<not> checkCollision (createBullet 640 (640 - 8 * real (Suc k)) True) a"
  shows "k \<le> m \<Longrightarrow> run (evs @ ticks k) = (Some theApp, flying rx n k)"
proof (induction k)
  case 0
  then show ?case using assms(1) by (simp add: ticks_def)
next
  case (Suc k)
  then have "run (evs @ ticks k) = (Some theApp, flying rx n k)" by simp
  moreover have "gameLoop (Some theApp) (16 * int (Suc k)) 0 0 (flying rx n k) = flying rx n (Suc k)"
    using Suc.prems assms(2,3,4) by (intro flight) auto
  ultimately show ?case
    by (simp only: ticks_Suc append_assoc [symmetric] run_snoc step.simps)
qed

lemma volley5: "run (volley halfDraws 5) = (Some theApp, flying halfDraws 5 0)"
  by (simp add: volley_def run_def flying_def eval_nat_numeral initialGame_def startLevel1_def
      handleKeyDown_def createBullet_def createPlayer_def theApp_def)

lemma volley2: "run (volley zeroDraws 2) = (Some theApp, flying zeroDraws 2 0)"
  by (simp add: volley_def run_def flying_def eval_nat_numeral initialGame_def startLevel1_def
      handleKeyDown_def createBullet_def createPlayer_def theApp_def)

lemma approach5: "run (volley halfDraws 5 @ ticks 50) = (Some theApp, flying halfDraws 5 50)"
proof (rule flight_run [OF volley5, of 50])
  show "\<forall>k<50. \<forall>a\<in>set (spawnAsteroids theApp halfDraws halfDraws 5).
       \<not> checkCollision (createBullet 640 (640 - 8 * real (Suc k)) True) a"
    by (simp add: eval_nat_numeral halfDraws_def ctor_defs box_defs)
qed simp_all

lemma approach2: "run (volley zeroDraws 2 @ ticks 80) = (Some theApp, flying zeroDraws 2 80)"
proof (rule flight_run [OF volley2, of 80])
  show "\<forall>k<80. \<forall>a\<in>set (spawnAsteroids theApp zeroDraws halfDraws 5).
       \<not> checkCollision (createBullet 640 (640 - 8 * real (Suc k)) True) a"
    by (simp add: eval_nat_numeral halfDraws_def zeroDraws_def ctor_defs box_defs)
qed simp_all

lemma ticks_51: "ticks 51 = ticks 50 @ [Tick 816 0 0]"
  using ticks_Suc [of 50] by simp

lemma ticks_81: "ticks 81 = ticks 80 @ [Tick 1296 0 0]"
  using ticks_Suc [of 80] by simp

lemma level2_reached:
  "fst (run (volley halfDraws 5 @ ticks 51)) = Some theApp \<and>
   snd (run (volley halfDraws 5 @ ticks 51)) =
     startLevel2 (Some theApp) 0 0 ((flying halfDraws 5 51)\<lparr>bullets := [], asteroids := []\<rparr>)"
  by (simp only: ticks_51 append_assoc [symmetric] run_snoc approach5 step.simps)
    (simp add: flying_def eval_nat_numeral halfDraws_def tick_defs ctor_defs box_defs Let_def)

section \<open>Starting level one\<close>

text \<open>
  The specification has \<open>startLevelOne\<close> clear the boss and the boss bullets as
  well. \<open>startLevel1\<close> does not touch them: started from a lost level two, the old boss
  and its bullet are still in the state.
\<close>

theorem startLevel1_keeps_boss:
  "boss (startLevel1 (Some theApp) halfDraws halfDraws 0 lostLevel2Game) =
     Some (createBoss theApp 0) \<and>
   bossBullets (startLevel1 (Some theApp) halfDraws halfDraws 0 lostLevel2Game) =
     [createBullet 640 300 False]"
  by (simp add: startLevel1_def lostLevel2Game_def)

text \<open>
  C2, as amended. With the renderer attached, \<open>startLevel1\<close> empties the player bullets,
  replaces the asteroids by exactly five new ones and the player by a new one, and sets
  bullets-remaining to 10, time-remaining to 60 and the outcome to level one, whatever
  the state before; the boss and the boss bullets stay as they were. Without the
  renderer it does nothing.
\<close>

theorem startLevel1_resets_level_one:
  "startLevel1 None rx ry t g = g \<and>
   bullets (startLevel1 (Some a) rx ry t g) = [] \<and>
   asteroids (startLevel1 (Some a) rx ry t g) = spawnAsteroids a rx ry 5 \<and>
   length (asteroids (startLevel1 (Some a) rx ry t g)) = 5 \<and>
   player (startLevel1 (Some a) rx ry t g) = Some (createPlayer a) \<and>
   bulletsRemaining (startLevel1 (Some a) rx ry t g) = 10 \<and>
   timeRemaining (startLevel1 (Some a) rx ry t g) = 60 \<and>
   gameState (startLevel1 (Some a) rx ry t g) = Level1 \<and>
   boss (startLevel1 (Some a) rx ry t g) = boss g \<and>
   bossBullets (startLevel1 (Some a) rx ry t g) = bossBullets g"
  by (simp add: startLevel1_def eval_nat_numeral)

section \<open>The timeout comes first\<close>

text \<open>
  C3. In a running level, a tick whose clock reading brings time-remaining to zero or
  below only updates the timer and sets the outcome to lose: player, bullets, asteroids,
  boss and boss bullets are what they were, and no other transition is taken.
\<close>

theorem timeout_preempts:
  assumes "gameState g = Level1 \<or> gameState g = Level2"
    and "timeRemaining g - real_of_int (currentTime - lastTime g) / 1000 \<le> 0"
  shows "gameLoop (Some a) currentTime tb t g =
     g\<lparr>timeRemaining := timeRemaining g - real_of_int (currentTime - lastTime g) / 1000,
       lastTime := currentTime, gameState := Lose\<rparr>"
  using assms by (auto simp: gameLoop_def gameLoopWith_def tickTimer_def)

text \<open>
  The scenario of the specification: ten milliseconds left, and a bullet that would
  clear the last asteroid on this tick. The outcome is lose, and bullet and asteroid
  are still there.
\<close>

theorem timeout_preempts_witness:
  "gameState (lastShotGame (1 / 100)) = Level1 \<and>
   timeRemaining (lastShotGame (1 / 100)) -
     real_of_int (16 - lastTime (lastShotGame (1 / 100))) / 1000 \<le> 0 \<and>
   gameState (gameLoop (Some theApp) 16 0 0 (lastShotGame (1 / 100))) = Lose \<and>
   asteroids (gameLoop (Some theApp) 16 0 0 (lastShotGame (1 / 100))) =
     [createAsteroid 640 200] \<and>
   bullets (gameLoop (Some theApp) 16 0 0 (lastShotGame (1 / 100))) =
     [createBullet 640 208 True]"
proof -
  have a: "gameState (lastShotGame (1 / 100)) = Level1" by (simp add: lastShotGame_def)
  have b: "timeRemaining (lastShotGame (1 / 100)) -
      real_of_int (16 - lastTime (lastShotGame (1 / 100))) / 1000 \<le> 0"
    by (simp add: lastShotGame_def)
  have c: "gameLoop (Some theApp) 16 0 0 (lastShotGame (1 / 100)) =
      (lastShotGame (1 / 100))
        \<lparr>timeRemaining := timeRemaining (lastShotGame (1 / 100)) -
           real_of_int (16 - lastTime (lastShotGame (1 / 100))) / 1000,
         lastTime := 16, gameState := Lose\<rparr>"
    using a by (intro timeout_preempts [OF _ b]) simp
  have d: "asteroids (lastShotGame (1 / 100)) = [createAsteroid 640 200]"
    "bullets (lastShotGame (1 / 100)) = [createBullet 640 208 True]"
    by (simp_all add: lastShotGame_def)
  show ?thesis unfolding c using a b d by simp
qed

section \<open>Cleared asteroids come before the ammunition check\<close>

text \<open>
  C4. In level one, on a tick that does not time out: if no asteroid is left after the
  collision scan, the tick is \<open>startLevel2\<close> applied to the state after the scan and the
  outcome is level two, whatever bullets-remaining is; if asteroids are left, the
  outcome is lose exactly when bullets-remaining is zero and no bullet is in flight.
\<close>

theorem cleared_before_no_ammo:
  assumes "gameState g = Level1" and "0 < timeRemaining (tickTimer c g)"
  shows
    "(asteroids (level1Collisions (beforeLevels a c g)) = [] \<longrightarrow>
        gameLoop (Some a) c tb t g =
          startLevel2 (Some a) tb t (level1Collisions (beforeLevels a c g)) \<and>
        gameState (gameLoop (Some a) c tb t g) = Level2) \<and>
     (asteroids (level1Collisions (beforeLevels a c g)) \<noteq> [] \<longrightarrow>
        (gameState (gameLoop (Some a) c tb t g) = Lose \<longleftrightarrow>
           bulletsRemaining g = 0 \<and> bullets (level1Collisions (beforeLevels a c g)) = []))"
  using assms
  by (simp add: gameLoop_def gameLoopWith_def Let_def level2Logic_def startLevel2_def)

text \<open>
  The last bullet destroys the last asteroid while bullets-remaining is zero.
\<close>

theorem cleared_before_no_ammo_witness:
  "gameState (lastShotGame 30) = Level1 \<and>
   0 < timeRemaining (tickTimer 16 (lastShotGame 30)) \<and>
   bulletsRemaining (lastShotGame 30) = 0 \<and>
   bullets (level1Collisions (beforeLevels theApp 16 (lastShotGame 30))) = [] \<and>
   asteroids (level1Collisions (beforeLevels theApp 16 (lastShotGame 30))) = [] \<and>
   gameState (gameLoop (Some theApp) 16 0 0 (lastShotGame 30)) = Level2"
proof -
  have a: "gameState (lastShotGame 30) = Level1" by (simp add: lastShotGame_def)
  have b: "0 < timeRemaining (tickTimer 16 (lastShotGame 30))"
    by (simp add: lastShotGame_def tickTimer_def)
  have c: "bullets (level1Collisions (beforeLevels theApp 16 (lastShotGame 30))) = []"
    "asteroids (level1Collisions (beforeLevels theApp 16 (lastShotGame 30))) = []"
    by (simp_all add: lastShotGame_def tick_defs ctor_defs box_defs)
  have d: "bulletsRemaining (lastShotGame 30) = 0" by (simp add: lastShotGame_def)
  from cleared_before_no_ammo [OF a b, of theApp 0 0] a b c d show ?thesis by blast
qed

section \<open>Firing\<close>

text \<open>
  The fire key in the menu: bullets-remaining is 10, yet there is no player, and no
  bullet is spawned and nothing is decremented.
\<close>

theorem fire_without_player:
  "0 < bulletsRemaining initialGame \<and>
   bullets (handleKeyDown ''Space'' initialGame) = [] \<and>
   bulletsRemaining (handleKeyDown ''Space'' initialGame) = bulletsRemaining initialGame"
  by (simp add: handleKeyDown_def initialGame_def)

text \<open>
  C5, as amended. When a player exists and bullets-remaining is greater than zero, the
  fire key appends exactly one bullet, twenty units above the player, and decrements
  bullets-remaining by one; when bullets-remaining is zero, or there is no player, it
  only records the key, so every entity collection and bullets-remaining are unchanged;
  and bullets-remaining is never negative in a state of a session.
\<close>

theorem fire_spawns_one_bullet:
  "(player g = Some p \<and> 0 < bulletsRemaining g \<longrightarrow>
      handleKeyDown ''Space'' g =
        g\<lparr>keys := (keys g)(''Space'' \<mapsto> True),
          bullets := bullets g @ [createBullet (x p) (y p - 20) True],
          bulletsRemaining := bulletsRemaining g - 1\<rparr>) \<and>
   (bulletsRemaining g = 0 \<or> player g = None \<longrightarrow>
      handleKeyDown ''Space'' g = g\<lparr>keys := (keys g)(''Space'' \<mapsto> True)\<rparr>) \<and>
   0 \<le> bulletsRemaining (snd (run evs))"
  using session_inv_run [of evs]
  by (auto simp: handleKeyDown_def Let_def session_inv_def)

theorem fire_spawns_one_bullet_witness:
  "player lateGame = Some (createPlayer theApp) \<and> 0 < bulletsRemaining lateGame \<and>
   bullets (handleKeyDown ''Space'' lateGame) = [createBullet 640 640 True] \<and>
   bulletsRemaining (handleKeyDown ''Space'' lateGame) = 2 \<and>
   bulletsRemaining (lastShotGame 30) = 0 \<and>
   bullets (handleKeyDown ''Space'' (lastShotGame 30)) = bullets (lastShotGame 30) \<and>
   bulletsRemaining (handleKeyDown ''Space'' (lastShotGame 30)) = 0"
proof -
  have a: "player lateGame = Some (createPlayer theApp)" "0 < bulletsRemaining lateGame"
    by (simp_all add: lateGame_def)
  have b: "bulletsRemaining (lastShotGame 30) = 0" by (simp add: lastShotGame_def)
  from fire_spawns_one_bullet [of lateGame "createPlayer theApp" "[]"] a
  have c: "handleKeyDown ''Space'' lateGame =
      lateGame\<lparr>keys := (keys lateGame)(''Space'' \<mapsto> True),
        bullets := bullets lateGame @
          [createBullet (x (createPlayer theApp)) (y (createPlayer theApp) - 20) True],
        bulletsRemaining := bulletsRemaining lateGame - 1\<rparr>"
    by blast
  from fire_spawns_one_bullet [of "lastShotGame 30" "createPlayer theApp" "[]"] b
  have d: "handleKeyDown ''Space'' (lastShotGame 30) =
      (lastShotGame 30)\<lparr>keys := (keys (lastShotGame 30))(''Space'' \<mapsto> True)\<rparr>"
    by blast
  show ?thesis unfolding c d using a b
    by (simp add: lateGame_def createPlayer_def theApp_def)
qed

section \<open>The boss shoots\<close>

text \<open>
  At exactly 2000 ms after the last shot the boss does not shoot: the source compares
  with \<open>>\<close>.
\<close>

theorem boss_silent_at_2000ms:
  "gameState (bossGame 1700000000000) = Level2 \<and>
   map_option lastShot (boss (bossGame 1700000000000)) = Some 1700000000000 \<and>
   bossBullets (bossGame 1700000000000) = [] \<and>
   bossBullets (gameLoop (Some theApp) 1700000002000 0 0 (bossGame 1700000000000)) = [] \<and>
   map_option lastShot (boss (gameLoop (Some theApp) 1700000002000 0 0 (bossGame 1700000000000)))
     = Some 1700000000000 \<and>
   gameState (gameLoop (Some theApp) 1700000002000 0 0 (bossGame 1700000000000)) = Level2"
  by (simp add: bossGame_def tick_defs ctor_defs box_defs)

text \<open>
  C6, as amended. In level two with a boss, a tick that does not time out is the rest
  of the level-two block run from the state the boss's turn leaves. When more than
  2000 ms have passed since the boss's last shot, that turn appends exactly one boss
  bullet, at the boss's position plus 30 on the vertical axis, and after the tick the
  boss's last-shot time is the current time. When at most 2000 ms have passed, no
  bullet is added and the last-shot time stays.
\<close>

theorem boss_shoots_after_2000ms:
  assumes "gameState g = Level2" and "boss g = Some b0" and "0 < timeRemaining (tickTimer c g)"
  shows
    "gameLoop (Some a) c tb t g =
       level2Tail playerHitsBoss a (bossTurn a c b0 (beforeLevels a c g)) \<and>
     (2000 < c - lastShot b0 \<longrightarrow>
        bossTurn a c b0 (beforeLevels a c g) =
          (beforeLevels a c g)
            \<lparr>boss := Some ((bossMovement a c b0)\<lparr>lastShot := c\<rparr>),
             bossBullets := bossBullets g @
               [createBullet (x (bossMovement a c b0)) (y (bossMovement a c b0) + 30) False]\<rparr> \<and>
        map_option lastShot (boss (gameLoop (Some a) c tb t g)) = Some c) \<and>
     (c - lastShot b0 \<le> 2000 \<longrightarrow>
        boss (bossTurn a c b0 (beforeLevels a c g)) = Some (bossMovement a c b0) \<and>
        bossBullets (bossTurn a c b0 (beforeLevels a c g)) = bossBullets g \<and>
        map_option lastShot (boss (gameLoop (Some a) c tb t g)) = Some (lastShot b0))"
proof -
  have loop: "gameLoop (Some a) c tb t g =
       level2Tail playerHitsBoss a (bossTurn a c b0 (beforeLevels a c g))"
    using assms by (simp add: gameLoop_def gameLoopWith_def Let_def level2Logic_def)
  have shot: "bossTurn a c b0 (beforeLevels a c g) =
          (beforeLevels a c g)
            \<lparr>boss := Some ((bossMovement a c b0)\<lparr>lastShot := c\<rparr>),
             bossBullets := bossBullets g @
               [createBullet (x (bossMovement a c b0)) (y (bossMovement a c b0) + 30) False]\<rparr>"
    if "2000 < c - lastShot b0"
    using that by (simp add: bossTurn_def bossShooting_def)
  have quiet: "boss (bossTurn a c b0 (beforeLevels a c g)) = Some (bossMovement a c b0) \<and>
        bossBullets (bossTurn a c b0 (beforeLevels a c g)) = bossBullets g"
    if "c - lastShot b0 \<le> 2000"
    using that by (simp add: bossTurn_def bossShooting_def)
  have after_shot: "map_option lastShot (boss (gameLoop (Some a) c tb t g)) = Some c"
    if "2000 < c - lastShot b0"
    unfolding loop using level2Tail_lastShot [of "bossTurn a c b0 (beforeLevels a c g)"
        "(bossMovement a c b0)\<lparr>lastShot := c\<rparr>" playerHitsBoss a] shot [OF that]
    by simp
  have after_quiet: "map_option lastShot (boss (gameLoop (Some a) c tb t g)) = Some (lastShot b0)"
    if "c - lastShot b0 \<le> 2000"
    unfolding loop using level2Tail_lastShot [of "bossTurn a c b0 (beforeLevels a c g)"
        "bossMovement a c b0" playerHitsBoss a] quiet [OF that]
    by simp
  show ?thesis using loop shot quiet after_shot after_quiet by blast
qed

text \<open>One millisecond later the boss shoots.\<close>

theorem boss_shoots_after_2000ms_witness:
  "gameState (bossGame 1700000000000) = Level2 \<and>
   boss (bossGame 1700000000000) =
     Some ((createBoss theApp 1699999999984)\<lparr>lastShot := 1700000000000\<rparr>) \<and>
   0 < timeRemaining (tickTimer 1700000002001 (bossGame 1700000000000)) \<and>
   2000 < 1700000002001 - lastShot ((createBoss theApp 1699999999984)\<lparr>lastShot := 1700000000000\<rparr>) \<and>
   bossBullets (bossTurn theApp 1700000002001
       ((createBoss theApp 1699999999984)\<lparr>lastShot := 1700000000000\<rparr>)
       (beforeLevels theApp 1700000002001 (bossGame 1700000000000))) =
     [createBullet 640 130 False] \<and>
   map_option lastShot (boss (gameLoop (Some theApp) 1700000002001 0 0 (bossGame 1700000000000)))
     = Some 1700000002001"
proof -
  define b0 where "b0 = (createBoss theApp 1699999999984)\<lparr>lastShot := 1700000000000\<rparr>"
  define g where "g = bossGame 1700000000000"
  have a: "gameState g = Level2" by (simp add: g_def bossGame_def)
  have b: "boss g = Some b0" by (simp add: g_def b0_def bossGame_def)
  have c: "0 < timeRemaining (tickTimer 1700000002001 g)"
    by (simp add: g_def bossGame_def tickTimer_def)
  have d: "2000 < 1700000002001 - lastShot b0" by (simp add: b0_def)
  have e: "bossMovement theApp 1700000002001 b0 = b0"
    by (simp add: b0_def bossMovement_def movePhase_def js_rem_def createBoss_def)
  have f: "bossBullets g = []" by (simp add: g_def bossGame_def)
  have h: "createBullet (x b0) (y b0 + 30) False = createBullet 640 130 False"
    by (simp add: b0_def createBoss_def theApp_def)
  from boss_shoots_after_2000ms [OF a b c, of theApp 0 0] d
  have turn: "bossTurn theApp 1700000002001 b0 (beforeLevels theApp 1700000002001 g) =
          (beforeLevels theApp 1700000002001 g)
            \<lparr>boss := Some ((bossMovement theApp 1700000002001 b0)\<lparr>lastShot := 1700000002001\<rparr>),
             bossBullets := bossBullets g @
               [createBullet (x (bossMovement theApp 1700000002001 b0))
                  (y (bossMovement theApp 1700000002001 b0) + 30) False]\<rparr>"
    and last: "map_option lastShot (boss (gameLoop (Some theApp) 1700000002001 0 0 g)) =
      Some 1700000002001"
    by blast+
  have "bossBullets (bossTurn theApp 1700000002001 b0 (beforeLevels theApp 1700000002001 g)) =
      [createBullet 640 130 False]"
    unfolding turn by (simp add: e f h)
  with a b c d last show ?thesis unfolding b0_def g_def by blast
qed

section \<open>Bullets that leave the screen\<close>

text \<open>
  C7. Every player bullet that passes the top edge on a tick should be gone after that
  tick, also when several pass it together. The source does not do that. In this
  session level one starts, the fire key goes down twice before the next tick, and
  after 80 ticks both bullets are at the top edge, \<open>y = 0\<close>. On the 81st tick the
  \<open>forEach\<close> of the source advances the first bullet to \<open>y = -8\<close> and removes it with
  \<open>splice\<close>; the second bullet thereby moves to the index just visited and is skipped:
  it is neither advanced nor removed and is still in the collection after the tick.
  The update the specification describes advances both bullets and removes both.
\<close>

theorem second_bullet_skipped:
  "bullets (snd (run (volley zeroDraws 2 @ ticks 80))) =
     [createBullet 640 0 True, createBullet 640 0 True] \<and>
   bullets (snd (run (volley zeroDraws 2 @ ticks 81))) = [createBullet 640 0 True] \<and>
   updateBullets_spec [createBullet 640 0 True, createBullet 640 0 True] = []"
proof -
  have before: "bullets (snd (run (volley zeroDraws 2 @ ticks 80))) =
      [createBullet 640 0 True, createBullet 640 0 True]"
    by (simp only: approach2 snd_conv) (simp add: flying_def eval_nat_numeral)
  have after: "bullets (snd (run (volley zeroDraws 2 @ ticks 81))) = [createBullet 640 0 True]"
    by (simp only: ticks_81 append_assoc [symmetric] run_snoc approach2 step.simps)
      (simp add: flying_def eval_nat_numeral halfDraws_def zeroDraws_def tick_defs ctor_defs
        box_defs Let_def)
  have spec: "updateBullets_spec [createBullet 640 0 True, createBullet 640 0 True] = []"
    by (simp add: updateBullets_spec_def advance_def createBullet_def)
  from before after spec show ?thesis by blast
qed

section \<open>The distance gate\<close>

text \<open>
  C8. In every state of a session, a tick with the distance gate before the
  player-versus-boss test and a tick without it give the same state. (The player stays
  at \<open>y = 660\<close> and the boss at \<open>y = 100\<close>, so their boxes never overlap and neither
  test ever fires.)
\<close>

theorem distance_gate_neutral: "gameLoop (fst (run evs)) c tb t (snd (run evs)) =
    gameLoop_ungated (fst (run evs)) c tb t (snd (run evs))"
  using session_inv_run [of evs] by (intro gameLoop_ungated_eq) (simp_all add: session_inv_def)

text \<open>
  A session that is in level two, with player and boss, when the two ticks are compared:
  five bullets fired at once destroy the five asteroids on the 51st tick.
\<close>

theorem distance_gate_neutral_witness:
  "gameState (snd (run (volley halfDraws 5 @ ticks 51))) = Level2 \<and>
   player (snd (run (volley halfDraws 5 @ ticks 51))) = Some (createPlayer theApp) \<and>
   boss (snd (run (volley halfDraws 5 @ ticks 51))) = Some (createBoss theApp 0) \<and>
   gameLoop (fst (run (volley halfDraws 5 @ ticks 51))) 832 0 0
       (snd (run (volley halfDraws 5 @ ticks 51))) =
     gameLoop_ungated (fst (run (volley halfDraws 5 @ ticks 51))) 832 0 0
       (snd (run (volley halfDraws 5 @ ticks 51)))"
  using distance_gate_neutral [of "volley halfDraws 5 @ ticks 51" 832 0 0]
  by (simp add: level2_reached startLevel2_def)

section \<open>One asteroid per bullet\<close>

text \<open>
  C9. The scan step for the bullet at index \<open>bi\<close> either finds no asteroid overlapping it
  and changes nothing, or removes that bullet and exactly one asteroid: the overlapping
  one with the highest index, which is the first the backward scan meets; no asteroid
  is looked at after it. Over the whole scan as many asteroids as bullets are
  removed.
\<close>

theorem bullet_destroys_one_asteroid:
  "(bi < length bs \<longrightarrow>
      ((\<forall>j<length asts. \<not> checkCollision (bs ! bi) (asts ! j)) \<and>
       bulletAsteroidLoop (Suc bi) (bs, asts) = bulletAsteroidLoop bi (bs, asts)) \<or>
      (\<exists>ai<length asts.
         checkCollision (bs ! bi) (asts ! ai) \<and>
         (\<forall>j. ai < j \<and> j < length asts \<longrightarrow> \<not> checkCollision (bs ! bi) (asts ! j)) \<and>
         bulletAsteroidLoop (Suc bi) (bs, asts) =
           bulletAsteroidLoop bi (splice1 bi bs, splice1 ai asts) \<and>
         length (splice1 bi bs) + 1 = length bs \<and>
         length (splice1 ai asts) + 1 = length asts)) \<and>
   length (bullets (level1Collisions g)) \<le> length (bullets g) \<and>
   length (asteroids (level1Collisions g)) \<le> length (asteroids g) \<and>
   length (bullets g) - length (bullets (level1Collisions g)) =
     length (asteroids g) - length (asteroids (level1Collisions g))"
proof -
  have step: "((\<forall>j<length asts. \<not> checkCollision (bs ! bi) (asts ! j)) \<and>
       bulletAsteroidLoop (Suc bi) (bs, asts) = bulletAsteroidLoop bi (bs, asts)) \<or>
      (\<exists>ai<length asts.
         checkCollision (bs ! bi) (asts ! ai) \<and>
         (\<forall>j. ai < j \<and> j < length asts \<longrightarrow> \<not> checkCollision (bs ! bi) (asts ! j)) \<and>
         bulletAsteroidLoop (Suc bi) (bs, asts) =
           bulletAsteroidLoop bi (splice1 bi bs, splice1 ai asts) \<and>
         length (splice1 bi bs) + 1 = length bs \<and>
         length (splice1 ai asts) + 1 = length asts)" if bi: "bi < length bs"
  proof (cases "findAsteroid (bs ! bi) asts (length asts)")
    case None
    then show ?thesis using findAsteroid_None [of "bs ! bi" asts "length asts"] by simp
  next
    case (Some ai)
    from findAsteroid_Some [OF Some] have "ai < length asts" by blast
    from findAsteroid_Some [OF Some] length_splice1 [OF bi] length_splice1 [OF this] Some
    have "ai < length asts \<and> checkCollision (bs ! bi) (asts ! ai) \<and>
         (\<forall>j. ai < j \<and> j < length asts \<longrightarrow> \<not> checkCollision (bs ! bi) (asts ! j)) \<and>
         bulletAsteroidLoop (Suc bi) (bs, asts) =
           bulletAsteroidLoop bi (splice1 bi bs, splice1 ai asts) \<and>
         length (splice1 bi bs) + 1 = length bs \<and>
         length (splice1 ai asts) + 1 = length asts"
      by (simp add: length_splice1)
    then show ?thesis by blast
  qed
  obtain bs' asts' where loop:
    "bulletAsteroidLoop (length (bullets g)) (bullets g, asteroids g) = (bs', asts')"
    by (cases "bulletAsteroidLoop (length (bullets g)) (bullets g, asteroids g)")
  then have res: "bullets (level1Collisions g) = bs'" "asteroids (level1Collisions g) = asts'"
    by (simp_all add: level1Collisions_def)
  from bulletAsteroidLoop_lengths [OF _ loop] res step show ?thesis by simp
qed

text \<open>
  A bullet that overlaps two asteroids removes the one scanned first and no other.
\<close>

theorem bullet_destroys_one_asteroid_witness:
  "(0::nat) < length (bullets doubleHitGame) \<and>
   checkCollision (bullets doubleHitGame ! 0) (asteroids doubleHitGame ! 0) \<and>
   checkCollision (bullets doubleHitGame ! 0) (asteroids doubleHitGame ! 1) \<and>
   bullets (level1Collisions doubleHitGame) = [] \<and>
   asteroids (level1Collisions doubleHitGame) = [createAsteroid 640 200] \<and>
   length (asteroids doubleHitGame) - length (asteroids (level1Collisions doubleHitGame)) = 1"
proof -
  have a: "(0::nat) < length (bullets doubleHitGame)" by (simp add: doubleHitGame_def)
  have b: "checkCollision (bullets doubleHitGame ! 0) (asteroids doubleHitGame ! 0)"
     "checkCollision (bullets doubleHitGame ! 0) (asteroids doubleHitGame ! 1)"
    by (simp_all add: doubleHitGame_def ctor_defs box_defs)
  have c: "bullets (level1Collisions doubleHitGame) = []"
    "asteroids (level1Collisions doubleHitGame) = [createAsteroid 640 200]"
    by (simp_all add: doubleHitGame_def level1Collisions_def ctor_defs box_defs splice1_def)
  have d: "length (bullets doubleHitGame) = 1" by (simp add: doubleHitGame_def)
  from bullet_destroys_one_asteroid [of 0 "bullets doubleHitGame" "asteroids doubleHitGame" doubleHitGame] a b c d
  show ?thesis by simp
qed

section \<open>Firing after the game is over\<close>

text \<open>
  C10. A tick never drops the player: if there was one before, there is one after,
  also when the tick ends in win or lose. And in the win or lose state, with a player
  and bullets-remaining greater than zero, the fire key appends a bullet and decrements
  bullets-remaining as in a running level.
\<close>

theorem fire_after_game_over:
  "(player g \<noteq> None \<longrightarrow> player (gameLoop r c tb t g) \<noteq> None) \<and>
   ((gameState g = Win \<or> gameState g = Lose) \<and> player g = Some p \<and> 0 < bulletsRemaining g \<longrightarrow>
      handleKeyDown ''Space'' g =
        g\<lparr>keys := (keys g)(''Space'' \<mapsto> True),
          bullets := bullets g @ [createBullet (x p) (y p - 20) True],
          bulletsRemaining := bulletsRemaining g - 1\<rparr>)"
  using gameLoopWith_player_kept [of g playerHitsBoss r c tb t]
  by (simp add: gameLoop_def handleKeyDown_def Let_def del: not_None_eq)

text \<open>
  Level one times out with three bullets left; the fire key still shoots.
\<close>

theorem fire_after_game_over_witness:
  "player lateGame \<noteq> None \<and>
   gameState (gameLoop (Some theApp) 16 0 0 lateGame) = Lose \<and>
   player (gameLoop (Some theApp) 16 0 0 lateGame) \<noteq> None \<and>
   player (gameLoop (Some theApp) 16 0 0 lateGame) = Some (createPlayer theApp) \<and>
   0 < bulletsRemaining (gameLoop (Some theApp) 16 0 0 lateGame) \<and>
   bullets (handleKeyDown ''Space'' (gameLoop (Some theApp) 16 0 0 lateGame)) =
     [createBullet 640 640 True] \<and>
   bulletsRemaining (handleKeyDown ''Space'' (gameLoop (Some theApp) 16 0 0 lateGame)) = 2"
proof -
  define over where
    "over = lateGame\<lparr>timeRemaining := - (3 / 500), lastTime := 16, gameState := Lose\<rparr>"
  have a: "player lateGame \<noteq> None" by (simp add: lateGame_def)
  from fire_after_game_over [of lateGame "Some theApp" 16 0 0 "createPlayer theApp"] a
  have kept: "player (gameLoop (Some theApp) 16 0 0 lateGame) \<noteq> None" by blast
  have b: "gameLoop (Some theApp) 16 0 0 lateGame = over"
    by (simp add: over_def lateGame_def gameLoop_def gameLoopWith_def tickTimer_def)
  have c: "player over = Some (createPlayer theApp)" "0 < bulletsRemaining over"
    "gameState over = Lose"
    by (simp_all add: over_def lateGame_def)
  from fire_after_game_over [of over None 0 0 0 "createPlayer theApp"] c
  have d: "handleKeyDown ''Space'' over =
     over\<lparr>keys := (keys over)(''Space'' \<mapsto> True),
       bullets := bullets over @
         [createBullet (x (createPlayer theApp)) (y (createPlayer theApp) - 20) True],
       bulletsRemaining := bulletsRemaining over - 1\<rparr>"
    by blast
  have e: "bullets (handleKeyDown ''Space'' over) = [createBullet 640 640 True]"
    "bulletsRemaining (handleKeyDown ''Space'' over) = 2"
    unfolding d by (simp_all add: over_def lateGame_def createPlayer_def theApp_def)
  from a kept c e show ?thesis unfolding b by blast
qed

end
